theory Spec2Isabelle
  imports
    Main
    "HOL-Library.Word"
    "HOL-Library.Multiset"
    "HOL-Library.Char_ord"
    "HOL-Library.List_Lexorder"
    "HOL-Library.Product_Lexorder"
begin

section \<open>The command layer: \<^verbatim>\<open>cmd/root.go\<close>\<close>

subsection \<open>Package-level variables\<close>

text \<open>
  Go's \<^verbatim>\<open>uint\<close> is taken at its 64-bit width. The command only compares these
  values with 1 and hands them on, so nothing below depends on the width beyond the
  conversions \<^verbatim>\<open>time.Duration(timeoutMs)\<close> and \<^verbatim>\<open>int(socks5Timeout)\<close>.
\<close>

type_synonym uint = "64 word"

record globals =
  hostConcurrency :: uint
  portConcurrency :: uint
  timeoutMs :: uint
  retransmissions :: uint
  scanAllAddresses :: bool
  quiet :: bool
  silent :: bool
  info :: bool
  debug :: bool
  trace :: bool
  outputPath :: string
  logPath :: string
  outputFormat :: string
  logFormat :: string
  outputAppend :: bool
  socks5Address :: string
  socks5User :: string
  socks5Password :: string
  socks5Timeout :: uint

text \<open>The initial values of the \<^verbatim>\<open>var ( ... )\<close> block; a string without initialiser is empty.\<close>

definition initial_globals :: globals where
  "initial_globals =
     \<lparr> hostConcurrency = 10, portConcurrency = 50, timeoutMs = 3000, retransmissions = 2,
       scanAllAddresses = True,
       quiet = False, silent = False, info = True, debug = False, trace = False,
       outputPath = [], logPath = [], outputFormat = ''auto'', logFormat = ''auto'',
       outputAppend = True,
       socks5Address = [], socks5User = [], socks5Password = [], socks5Timeout = 3000 \<rparr>"

definition supportedLogFormats :: "string \<rightharpoonup> bool" where
  "supportedLogFormats =
     map_of [(''json'', True), (''jsonl'', True), (''pretty'', True), (''auto'', True)]"

definition supportedOutputFormats :: "string \<rightharpoonup> bool" where
  "supportedOutputFormats =
     map_of [(''text'', True), (''txt'', True), (''yaml'', True), (''yml'', True),
             (''json'', True), (''jsonl'', True), (''csv'', True), (''tsv'', True),
             (''pretty'', True), (''auto'', True)]"

text \<open>
  \<^verbatim>\<open>sup, ok := m[k]; !ok || !sup\<close>: a key that is absent, or present with value
  false, is refused.
\<close>

definition refused :: "(string \<rightharpoonup> bool) \<Rightarrow> string \<Rightarrow> bool" where
  "refused m k = (case m k of None \<Rightarrow> True | Some b \<Rightarrow> \<not> b)"

subsection \<open>\<^verbatim>\<open>strings.ToLower\<close>\<close>

text \<open>
  A string is its sequence of bytes. \<^verbatim>\<open>strings.ToLower\<close> adds \<^verbatim>\<open>'a' - 'A'\<close> to every
  byte between \<^verbatim>\<open>'A'\<close> and \<^verbatim>\<open>'Z'\<close>; that is its whole effect on ASCII input, the
  input the format names are made of. Bytes from 128 on are left as they are here,
  where Go lowers the runes they encode and replaces invalid UTF-8. The only runes
  outside ASCII that Go lowers into ASCII are U+212A and U+0130, to \<^verbatim>\<open>k\<close> and \<^verbatim>\<open>i\<close>,
  which no format name contains: the two functions agree on which names are
  supported, and differ only in how a refused name with such bytes is spelled in the
  error message.
\<close>

definition lower_char :: "char \<Rightarrow> char" where
  "lower_char c =
     (let n = (of_char c :: nat) in if 65 \<le> n \<and> n \<le> 90 then char_of (n + 32) else c)"

definition ToLower :: "string \<Rightarrow> string" where
  "ToLower s = map lower_char s"

subsection \<open>What the command does to the outside world\<close>

datatype level = Disabled | ErrorLevel | TraceLevel | DebugLevel | InfoLevel

datatype oflag = O_WRONLY | O_CREATE | O_APPEND

datatype os_file = Stdout | Stderr | Opened string

text \<open>A \<^verbatim>\<open>zerolog.Logger\<close>: where it writes, and whether through a \<^verbatim>\<open>ConsoleWriter\<close>.\<close>

record logger =
  out :: os_file
  console :: bool

text \<open>The ten arguments of \<^verbatim>\<open>scan.NewUdpProbeScanner\<close>, in the order of the call.\<close>

record scanner_args =
  arg_log :: logger
  arg_scanAllAddresses :: bool
  arg_hostConcurrency :: uint
  arg_portConcurrency :: uint
  arg_retransmissions :: uint
  arg_timeout :: "64 word"
  arg_socks5Address :: string
  arg_socks5User :: string
  arg_socks5Password :: string
  arg_socks5Timeout :: int

text \<open>
  Every call that leaves \<^verbatim>\<open>RunE\<close> is an event; a run is the list of its events in
  program order, and how it ended. The logging events record the call made on the
  logger (level and message), not what zerolog writes at the global level in force.
\<close>

datatype event =
    SetGlobalLevel level
  | OpenFile string "oflag set"
  | LogError logger string
  | LogInfo logger string
  | LogFatal logger string
  | NewUdpProbeScanner scanner_args
  | Scan "string list"
  | Length
  | SaveJson os_file
  | SaveYAML os_file
  | SaveTable string os_file
  | Close os_file

text \<open>
  \<^verbatim>\<open>RunE\<close> either returns its \<^verbatim>\<open>err\<close> (\<open>None\<close> is \<^verbatim>\<open>nil\<close>), or the process ends
  inside it: \<^verbatim>\<open>log.Fatal()...Msg\<close> calls \<^verbatim>\<open>os.Exit(1)\<close>.
\<close>

datatype outcome = Return "string option" | Exit nat

record run =
  events :: "event list"
  outcome :: outcome

text \<open>
  The answers of the outside world. Each of these calls is made at most once in a run,
  so one answer per call describes every behaviour of the file system and of package
  \<^verbatim>\<open>scan\<close>: the error of opening the log file, the error of opening the output file,
  the error of \<^verbatim>\<open>NewUdpProbeScanner\<close> (\<open>None\<close> is \<^verbatim>\<open>nil\<close>), and the value of
  \<^verbatim>\<open>scanner.Length()\<close> after \<^verbatim>\<open>Scan\<close>.
\<close>

record world =
  log_open_err :: "string option"
  output_open_err :: "string option"
  scanner_err :: "scanner_args \<Rightarrow> string option"
  scanner_length :: "string list \<Rightarrow> int"

subsection \<open>\<^verbatim>\<open>rootCmd.RunE\<close>\<close>

text \<open>Lines 123 to 136: the checks, on the globals with \<^verbatim>\<open>outputFormat\<close> already lowered.\<close>

definition check_config :: "globals \<Rightarrow> string option" where
  "check_config g =
     (if refused supportedOutputFormats (outputFormat g)
        then Some (''invalid output format: '' @ outputFormat g)
      else if refused supportedLogFormats (logFormat g)
        then Some (''invalid log format: '' @ logFormat g)
      else if portConcurrency g < 1 \<or> hostConcurrency g < 1
        then Some ''concurrency value must be > 0''
      else if timeoutMs g < 1
        then Some ''timeout value must be > 0''
      else None)"

text \<open>Lines 137 to 139 and 120 to 121: the flags of the two \<^verbatim>\<open>os.OpenFile\<close> calls.\<close>

definition outputFlags :: "globals \<Rightarrow> oflag set" where
  "outputFlags g =
     (if outputAppend g then {O_WRONLY, O_CREATE} \<union> {O_APPEND} else {O_WRONLY, O_CREATE})"

definition logFileFlags :: "oflag set" where
  "logFileFlags = {O_WRONLY, O_CREATE, O_APPEND}"

text \<open>Lines 141 to 151.\<close>

definition set_level :: "globals \<Rightarrow> event list" where
  "set_level g =
     (if silent g then [SetGlobalLevel Disabled]
      else if quiet g then [SetGlobalLevel ErrorLevel]
      else if trace g then [SetGlobalLevel TraceLevel]
      else if debug g then [SetGlobalLevel DebugLevel]
      else if info g then [SetGlobalLevel InfoLevel]
      else [])"

text \<open>
  Lines 155 to 189: the logger, the log file when one was opened, the value left in
  \<^verbatim>\<open>err\<close>, and the events.
\<close>

definition stderr_logger :: "globals \<Rightarrow> logger" where
  "stderr_logger g =
     \<lparr> out = Stderr, console = (logFormat g = ''auto'' \<or> logFormat g = ''pretty'') \<rparr>"

definition open_log :: "world \<Rightarrow> globals \<Rightarrow> logger \<times> os_file option \<times> string option \<times> event list" where
  "open_log w g =
     (if logPath g = [] then (stderr_logger g, None, None, [])
      else
        (case log_open_err w of
           None \<Rightarrow>
             (\<lparr> out = Opened (logPath g), console = (logFormat g = ''pretty'') \<rparr>,
              Some (Opened (logPath g)), None,
              [OpenFile (logPath g) logFileFlags])
         | Some e \<Rightarrow>
             (stderr_logger g, None, Some e,
              [OpenFile (logPath g) logFileFlags,
               LogError (stderr_logger g) ''Could not open log file for writing''])))"

text \<open>Lines 193 to 203.\<close>

definition scanner_args_of :: "logger \<Rightarrow> globals \<Rightarrow> scanner_args" where
  "scanner_args_of lg g =
     \<lparr> arg_log = lg,
       arg_scanAllAddresses = scanAllAddresses g,
       arg_hostConcurrency = hostConcurrency g,
       arg_portConcurrency = portConcurrency g,
       arg_retransmissions = retransmissions g,
       arg_timeout = timeoutMs g * 1000000,
       arg_socks5Address = socks5Address g,
       arg_socks5User = socks5User g,
       arg_socks5Password = socks5Password g,
       arg_socks5Timeout = sint (socks5Timeout g) \<rparr>"

text \<open>
  Lines 227 to 248: the file the results go to, the output format after \<^verbatim>\<open>auto\<close> is
  resolved, the file to close on return, the value left in \<^verbatim>\<open>err\<close>, and the events.
\<close>

definition open_output ::
  "world \<Rightarrow> globals \<Rightarrow> logger \<Rightarrow> os_file \<times> string \<times> os_file option \<times> string option \<times> event list" where
  "open_output w g lg =
     (if outputPath g = [] then
        (Stdout, if outputFormat g = ''auto'' then ''pretty'' else outputFormat g, None, None, [])
      else
        (case output_open_err w of
           None \<Rightarrow>
             (Opened (outputPath g),
              if outputFormat g = ''auto'' then ''json'' else outputFormat g,
              Some (Opened (outputPath g)), None,
              [OpenFile (outputPath g) (outputFlags g)])
         | Some e \<Rightarrow>
             (Stdout, if outputFormat g = ''auto'' then ''pretty'' else outputFormat g,
              None, Some e,
              [OpenFile (outputPath g) (outputFlags g),
               LogError lg ''Could not open output file for writing''])))"

text \<open>Lines 249 to 257.\<close>

definition save :: "string \<Rightarrow> os_file \<Rightarrow> event" where
  "save fmt f =
     (if fmt = ''json'' \<or> fmt = ''jsonl'' then SaveJson f
      else if fmt = ''yml'' \<or> fmt = ''yaml'' then SaveYAML f
      else SaveTable fmt f)"

text \<open>The deferred \<^verbatim>\<open>Close\<close> calls run on return, last deferred first.\<close>

definition deferred :: "os_file option \<Rightarrow> event list" where
  "deferred fo = (case fo of None \<Rightarrow> [] | Some f \<Rightarrow> [Close f])"

text \<open>
  The whole function. \<^verbatim>\<open>err\<close> is the named result: the assignment in the condition
  at line 193 overwrites what opening the log file left in it, the one at line 233
  overwrites it again, and the bare \<^verbatim>\<open>return\<close> at line 259 returns what it then holds.
\<close>

definition RunE :: "world \<Rightarrow> globals \<Rightarrow> string list \<Rightarrow> run" where
  "RunE w g0 targets =
     (let g = g0 \<lparr> outputFormat := ToLower (outputFormat g0) \<rparr> in
      case check_config g of
        Some e \<Rightarrow> \<lparr> events = [], outcome = Return (Some e) \<rparr>
      | None \<Rightarrow>
         (case open_log w g of (lg, logFile, err1, ev_log) \<Rightarrow>
           let args = scanner_args_of lg g;
               ev1 = set_level g @ ev_log @ [NewUdpProbeScanner args]
           in
           (case scanner_err w args of
              Some e \<Rightarrow>
                \<lparr> events = ev1 @ [LogFatal lg ''Failed to initialize scanner''],
                  outcome = Exit 1 \<rparr>
            | None \<Rightarrow>
               (let ev2 = ev1 @ [LogInfo lg ''Starting scanner'', Scan targets,
                                 LogInfo lg ''Scan complete'', Length]
                in
                if scanner_length w targets > 0 then
                  (case open_output w g lg of (f, fmt, outputFile, err2, ev_out) \<Rightarrow>
                     \<lparr> events = ev2 @ ev_out @ [save fmt f] @ deferred outputFile @ deferred logFile,
                       outcome = Return err2 \<rparr>)
                else
                  \<lparr> events = ev2 @ deferred logFile, outcome = Return None \<rparr>))))"

text \<open>The events that write results: the three exporters of the scanner.\<close>

fun is_export :: "event \<Rightarrow> bool" where
  "is_export (SaveJson f) = True"
| "is_export (SaveYAML f) = True"
| "is_export (SaveTable fmt f) = True"
| "is_export e = False"

subsection \<open>Flags and \<^verbatim>\<open>Execute\<close>\<close>

text \<open>
  \<^verbatim>\<open>init\<close> registers fourteen flags, each bound to one package variable; the four
  registrations of the proxy flags are inside a comment. It also has cobra register the
  version flag (\<^verbatim>\<open>InitDefaultVersionFlag\<close> at line 67, \<^verbatim>\<open>Version\<close> at line 105), and
  cobra gives every command a help flag; these two are bound to no package variable.
  A command line is the list of flag occurrences it holds, in order, each with its
  parsed value; an occurrence of any other name is \<open>Unregistered\<close>.
\<close>

datatype flag =
    Flag_output string
  | Flag_log string
  | Flag_append bool
  | Flag_format string
  | Flag_log_format string
  | Flag_host_tasks uint
  | Flag_port_tasks uint
  | Flag_retries uint
  | Flag_timeout uint
  | Flag_all bool
  | Flag_debug bool
  | Flag_trace bool
  | Flag_quiet bool
  | Flag_silent bool
  | Flag_help bool
  | Flag_version bool
  | Unregistered string

datatype cli_error = UnknownFlag string | TooFewArgs nat nat

fun set_flag :: "flag \<Rightarrow> globals \<Rightarrow> cli_error + globals" where
  "set_flag (Flag_output v) g = Inr (g \<lparr> outputPath := v \<rparr>)"
| "set_flag (Flag_log v) g = Inr (g \<lparr> logPath := v \<rparr>)"
| "set_flag (Flag_append v) g = Inr (g \<lparr> outputAppend := v \<rparr>)"
| "set_flag (Flag_format v) g = Inr (g \<lparr> outputFormat := v \<rparr>)"
| "set_flag (Flag_log_format v) g = Inr (g \<lparr> logFormat := v \<rparr>)"
| "set_flag (Flag_host_tasks v) g = Inr (g \<lparr> hostConcurrency := v \<rparr>)"
| "set_flag (Flag_port_tasks v) g = Inr (g \<lparr> portConcurrency := v \<rparr>)"
| "set_flag (Flag_retries v) g = Inr (g \<lparr> retransmissions := v \<rparr>)"
| "set_flag (Flag_timeout v) g = Inr (g \<lparr> timeoutMs := v \<rparr>)"
| "set_flag (Flag_all v) g = Inr (g \<lparr> scanAllAddresses := v \<rparr>)"
| "set_flag (Flag_debug v) g = Inr (g \<lparr> debug := v \<rparr>)"
| "set_flag (Flag_trace v) g = Inr (g \<lparr> trace := v \<rparr>)"
| "set_flag (Flag_quiet v) g = Inr (g \<lparr> quiet := v \<rparr>)"
| "set_flag (Flag_silent v) g = Inr (g \<lparr> silent := v \<rparr>)"
| "set_flag (Flag_help v) g = Inr g"
| "set_flag (Flag_version v) g = Inr g"
| "set_flag (Unregistered name) g = Inl (UnknownFlag name)"

fun parse_flags :: "flag list \<Rightarrow> globals \<Rightarrow> cli_error + globals" where
  "parse_flags [] g = Inr g"
| "parse_flags (f # fs) g =
     (case set_flag f g of Inl e \<Rightarrow> Inl e | Inr g' \<Rightarrow> parse_flags fs g')"

text \<open>
  \<^verbatim>\<open>Args: cobra.MinimumNArgs(1)\<close> at line 114. The validator of the cobra library
  that the field holds refuses an argument list shorter than its bound, with an error
  that names the bound and the number received.
\<close>

definition MinimumNArgs :: "nat \<Rightarrow> string list \<Rightarrow> cli_error option" where
  "MinimumNArgs n args = (if length args < n then Some (TooFewArgs n (length args)) else None)"

text \<open>The values of the help flag and of the version flag: the last occurrence counts.\<close>

definition helpVal :: "flag list \<Rightarrow> bool" where
  "helpVal flags = foldl (\<lambda>b f. case f of Flag_help v \<Rightarrow> v | _ \<Rightarrow> b) False flags"

definition versionVal :: "flag list \<Rightarrow> bool" where
  "versionVal flags = foldl (\<lambda>b f. case f of Flag_version v \<Rightarrow> v | _ \<Rightarrow> b) False flags"

text \<open>
  A first positional argument \<^verbatim>\<open>__complete\<close> or \<^verbatim>\<open>__completeNoDesc\<close> is cobra's hidden
  request for shell completion: cobra answers it itself and the root command does not
  run.
\<close>

definition completion_request :: "string list \<Rightarrow> bool" where
  "completion_request args =
     (case args of [] \<Rightarrow> False | a # rest \<Rightarrow> a = ''__complete'' \<or> a = ''__completeNoDesc'')"

text \<open>
  How \<^verbatim>\<open>rootCmd.Execute()\<close> ends: with an error returned before \<^verbatim>\<open>RunE\<close> was entered,
  with the help text or the version printed and no error, with a completion request
  answered, or with a run of \<^verbatim>\<open>RunE\<close>.
\<close>

datatype cli_result = Refused cli_error | Helped | Versioned | Completed | Ran run

text \<open>
  \<^verbatim>\<open>rootCmd.Execute()\<close>, in the order of the cobra library: a completion request is
  answered; otherwise the flags are parsed into the bound variables; then the help flag
  and, after it, the version flag end the invocation; then the \<^verbatim>\<open>Args\<close> validator is
  applied to the positional arguments; and only then is \<^verbatim>\<open>RunE\<close> called with them.
\<close>

definition rootCmd_Execute :: "world \<Rightarrow> flag list \<Rightarrow> string list \<Rightarrow> cli_result" where
  "rootCmd_Execute w flags targets =
     (if completion_request targets then Completed
      else
        (case parse_flags flags initial_globals of
           Inl e \<Rightarrow> Refused e
         | Inr g \<Rightarrow>
            if helpVal flags then Helped
            else if versionVal flags then Versioned
            else
              (case MinimumNArgs 1 targets of
                 Some e \<Rightarrow> Refused e
               | None \<Rightarrow> Ran (RunE w g targets))))"

text \<open>Lines 263 to 268: the exit status of the process.\<close>

definition Execute :: "world \<Rightarrow> flag list \<Rightarrow> string list \<Rightarrow> nat" where
  "Execute w flags targets =
     (case rootCmd_Execute w flags targets of
        Refused e \<Rightarrow> 1
      | Helped \<Rightarrow> 0
      | Versioned \<Rightarrow> 0
      | Completed \<Rightarrow> 0
      | Ran r \<Rightarrow> (case outcome r of Return None \<Rightarrow> 0 | Return (Some e) \<Rightarrow> 1 | Exit n \<Rightarrow> n))"

subsection \<open>Two worlds to run the command in\<close>

definition calm_world :: world where
  "calm_world =
     \<lparr> log_open_err = None, output_open_err = None,
       scanner_err = (\<lambda>a. None), scanner_length = (\<lambda>ts. int (length ts)) \<rparr>"

definition failing_world :: world where
  "failing_world =
     \<lparr> log_open_err = Some ''permission denied'', output_open_err = Some ''permission denied'',
       scanner_err = (\<lambda>a. Some ''no scanner''), scanner_length = (\<lambda>ts. int (length ts)) \<rparr>"

definition readonly_world :: world where
  "readonly_world =
     \<lparr> log_open_err = Some ''permission denied'', output_open_err = Some ''permission denied'',
       scanner_err = (\<lambda>a. None), scanner_length = (\<lambda>ts. int (length ts)) \<rparr>"

text \<open>Some configurations, as the flags leave the package variables.\<close>

definition json_to_file :: globals where
  "json_to_file = initial_globals \<lparr> outputPath := ''out.json'', outputFormat := ''JSON'' \<rparr>"

definition to_file :: globals where
  "to_file = initial_globals \<lparr> outputPath := ''out.txt'' \<rparr>"

definition log_to_file :: globals where
  "log_to_file = initial_globals \<lparr> logPath := ''udpz.log'' \<rparr>"

definition logged_to_file :: globals where
  "logged_to_file = initial_globals \<lparr> outputPath := ''out.txt'', logPath := ''udpz.log'' \<rparr>"

section \<open>The scanning engine: package \<^verbatim>\<open>scan\<close>\<close>

text \<open>
  The command layer calls \<^verbatim>\<open>scan.NewUdpProbeScanner\<close>, \<^verbatim>\<open>Scan\<close>, \<^verbatim>\<open>Length\<close> and the
  exporters; their bodies are given by the specification of the engine (sections 3 to 5
  of the design), which the definitions of this section follow.
\<close>

subsection \<open>The port probe\<close>

datatype probe_state =
  Pending | AwaitingResponse | Retrying | Open | Closed | OpenOrFiltered | Error

datatype signal = Reply | Rejection | Timeout | SocketFailure

record probe =
  state :: probe_state
  attempts :: nat
  sent :: nat

definition terminal :: "probe_state \<Rightarrow> bool" where
  "terminal s = (s = Open \<or> s = Closed \<or> s = OpenOrFiltered \<or> s = Error)"

definition pending_probe :: probe where
  \<comment> \<open>Modelled from the spec: the initial state of a port probe (section 4.3, "initial = Pending"),
      the body of the prober being absent.\<close>
  "pending_probe = \<lparr> state = Pending, attempts = 0, sent = 0 \<rparr>"

definition first_send :: "probe \<Rightarrow> probe" where
  \<comment> \<open>Modelled from the spec: step 1 of section 4.3, the first datagram; the prober's send
      is absent. An unreachable port rejected on this attempt has "attempts = 1".\<close>
  "first_send p = p \<lparr> state := AwaitingResponse, attempts := 1, sent := sent p + 1 \<rparr>"

fun on_signal :: "nat \<Rightarrow> signal \<Rightarrow> probe \<Rightarrow> probe" where
  \<comment> \<open>Modelled from the spec: steps 3 to 7 of section 4.3, what ends one wait of a probe; the
      prober's receive loop is absent. The first argument is the configured retransmissions.\<close>
  "on_signal r Reply p = p \<lparr> state := Open \<rparr>"
| "on_signal r Rejection p = p \<lparr> state := Closed \<rparr>"
| "on_signal r SocketFailure p = p \<lparr> state := Error \<rparr>"
| "on_signal r Timeout p =
     (if attempts p < r + 1
      then p \<lparr> state := Retrying, attempts := attempts p + 1, sent := sent p + 1 \<rparr>
      else p \<lparr> state := OpenOrFiltered \<rparr>)"

text \<open>
  The probe runs until its state is terminal. \<open>env k\<close> is what ends the wait that follows
  the \<open>k\<close>-th send: a reply, a rejection, the timer, or a socket failure.
\<close>

function run_probe :: "nat \<Rightarrow> (nat \<Rightarrow> signal) \<Rightarrow> probe \<Rightarrow> probe" where
  \<comment> \<open>Modelled from the spec: the state machine of section 4.3 run to a terminal state; the
      prober's loop is absent.\<close>
  "run_probe r env p =
     (if terminal (state p) then p else run_probe r env (on_signal r (env (attempts p)) p))"
  by pat_completeness auto
termination
proof (relation "measure (\<lambda>(r, env, p). if terminal (state p) then 0 else Suc (r + 1 - attempts p))")
  show "wf (measure (\<lambda>(r, env, p). if terminal (state p) then 0 else Suc (r + 1 - attempts p)))"
    by simp
next
  fix r :: nat and env :: "nat \<Rightarrow> signal" and p :: probe
  assume "\<not> terminal (state p)"
  then show "((r, env, on_signal r (env (attempts p)) p), (r, env, p))
      \<in> measure (\<lambda>(r, env, p). if terminal (state p) then 0 else Suc (r + 1 - attempts p))"
    by (cases "env (attempts p)") (auto simp: terminal_def)
qed

declare run_probe.simps [simp del]

definition probe_port :: "nat \<Rightarrow> (nat \<Rightarrow> signal) \<Rightarrow> probe" where
  \<comment> \<open>Modelled from the spec: one port probe from Pending to its terminal state (section 4.3).\<close>
  "probe_port r env = run_probe r env (first_send pending_probe)"

definition silence :: "nat \<Rightarrow> signal" where
  "silence k = Timeout"

subsection \<open>Target resolution\<close>

type_synonym address = string

record resolved_host =
  hostname :: string
  addresses :: "address list"

text \<open>
  The system resolver is a parameter: \<open>literal t\<close> says that \<open>t\<close> is a literal address,
  \<open>lookup t\<close> is the answer for a hostname, \<open>None\<close> when the query fails and otherwise the
  first address found and the ones after it.
\<close>

definition resolve ::
  "bool \<Rightarrow> (string \<Rightarrow> bool) \<Rightarrow> (string \<Rightarrow> (address \<times> address list) option) \<Rightarrow> string
     \<Rightarrow> string + address list" where
  \<comment> \<open>Modelled from the spec: the contract of the Target Resolver (section 4.1), whose code is
      absent. \<open>Inl t\<close> is the ResolutionError attributed to target \<open>t\<close>.\<close>
  "resolve scanAll literal lookup t =
     (if literal t then Inr [t]
      else (case lookup t of
              None \<Rightarrow> Inl t
            | Some (a, as) \<Rightarrow> Inr (if scanAll then a # as else [a])))"

record resolution =
  hosts :: "resolved_host list"
  resolution_errors :: "string list"

fun resolve_targets ::
  "bool \<Rightarrow> (string \<Rightarrow> bool) \<Rightarrow> (string \<Rightarrow> (address \<times> address list) option) \<Rightarrow> string list
     \<Rightarrow> resolution \<Rightarrow> resolution" where
  \<comment> \<open>Modelled from the spec: the resolution phase of \<open>Scan(targets)\<close> (sections 4.1 and 4.5),
      whose code is absent: a failure is recorded and the target skipped.\<close>
  "resolve_targets scanAll literal lookup [] s = s"
| "resolve_targets scanAll literal lookup (t # ts) s =
     (case resolve scanAll literal lookup t of
        Inl e \<Rightarrow>
          resolve_targets scanAll literal lookup ts
            (s \<lparr> resolution_errors := resolution_errors s @ [e] \<rparr>)
      | Inr as \<Rightarrow>
          resolve_targets scanAll literal lookup ts
            (s \<lparr> hosts := hosts s @ [\<lparr> hostname = t, addresses = as \<rparr>] \<rparr>))"

definition no_resolution :: resolution where
  "no_resolution = \<lparr> hosts = [], resolution_errors = [] \<rparr>"

text \<open>A resolver that knows one literal address and two hostnames.\<close>

definition sample_literal :: "string \<Rightarrow> bool" where
  "sample_literal t = (t = ''192.0.2.7'')"

definition sample_lookup :: "string \<Rightarrow> (address \<times> address list) option" where
  "sample_lookup =
     map_of [(''a.example'', (''192.0.2.1'', [''192.0.2.2''])),
             (''b.example'', (''192.0.2.3'', []))]"

subsection \<open>The result store\<close>










section \<open>Properties of the command layer\<close>

subsection \<open>Evaluating and unfolding\<close>

lemma lower_char_idem: "lower_char (lower_char c) = lower_char c"
  unfolding lower_char_def Let_def
  by (auto simp: of_char_of[where ?'a=nat])

lemma ToLower_idem: "ToLower (ToLower s) = ToLower s"
  by (simp add: ToLower_def lower_char_idem)

lemma ToLower_auto: "ToLower ''auto'' = ''auto''"
  by code_simp

lemma ToLower_JSON: "ToLower ''JSON'' = ''json''"
  by code_simp

lemma ToLower_xml: "ToLower ''xml'' = ''xml''"
  by code_simp

lemma check_config_zero:
  "hostConcurrency g = 0 \<or> portConcurrency g = 0 \<or> timeoutMs g = 0 \<Longrightarrow>
   \<exists>e. check_config g = Some e"
  by (auto simp: check_config_def word_less_1)

lemma check_config_initial:
  "check_config (initial_globals \<lparr> outputFormat := ''auto'' \<rparr>) = None"
  by (simp add: initial_globals_def check_config_def refused_def
        supportedOutputFormats_def supportedLogFormats_def)

lemma RunE_check_fails:
  "check_config (g \<lparr> outputFormat := ToLower (outputFormat g) \<rparr>) = Some e \<Longrightarrow>
   RunE w g ts = \<lparr> events = [], outcome = Return (Some e) \<rparr>"
  by (simp add: RunE_def Let_def)

lemma open_log_events:
  "open_log w g = (lg, lf, e1, evl) \<Longrightarrow>
   NewUdpProbeScanner a \<notin> set evl \<and> Scan t \<notin> set evl \<and> filter is_export evl = []"
  by (auto simp: open_log_def split: if_splits option.splits)

lemma set_level_events:
  "NewUdpProbeScanner a \<notin> set (set_level g) \<and> Scan t \<notin> set (set_level g)
   \<and> filter is_export (set_level g) = []"
  by (simp add: set_level_def)

lemma open_output_events:
  "open_output w g lg = (f, fmt, outf, e2, evo) \<Longrightarrow>
   NewUdpProbeScanner a \<notin> set evo \<and> Scan t \<notin> set evo \<and> filter is_export evo = []"
  by (auto simp: open_output_def split: if_splits option.splits)

lemma deferred_events:
  "NewUdpProbeScanner a \<notin> set (deferred fo) \<and> Scan t \<notin> set (deferred fo)
   \<and> filter is_export (deferred fo) = []"
  by (simp add: deferred_def split: option.splits)

lemma save_is_export: "is_export (save fmt f)"
  by (simp add: save_def)

lemma save_not_call: "NewUdpProbeScanner a \<noteq> save fmt f \<and> Scan t \<noteq> save fmt f"
  by (simp add: save_def)

lemma RunE_fatal:
  assumes "check_config (g \<lparr> outputFormat := ToLower (outputFormat g) \<rparr>) = None"
    and "open_log w (g \<lparr> outputFormat := ToLower (outputFormat g) \<rparr>) = (lg, lf, e1, evl)"
    and "scanner_err w (scanner_args_of lg (g \<lparr> outputFormat := ToLower (outputFormat g) \<rparr>))
           = Some e"
  shows "RunE w g ts =
     \<lparr> events = set_level (g \<lparr> outputFormat := ToLower (outputFormat g) \<rparr>) @ evl @
         [NewUdpProbeScanner (scanner_args_of lg (g \<lparr> outputFormat := ToLower (outputFormat g) \<rparr>)),
          LogFatal lg ''Failed to initialize scanner''],
       outcome = Exit 1 \<rparr>"
  using assms by (simp add: RunE_def Let_def)

lemma RunE_scans:
  assumes "check_config (g \<lparr> outputFormat := ToLower (outputFormat g) \<rparr>) = None"
    and "open_log w (g \<lparr> outputFormat := ToLower (outputFormat g) \<rparr>) = (lg, lf, e1, evl)"
    and "scanner_err w (scanner_args_of lg (g \<lparr> outputFormat := ToLower (outputFormat g) \<rparr>))
           = None"
    and "open_output w (g \<lparr> outputFormat := ToLower (outputFormat g) \<rparr>) lg
           = (f, fmt, outf, e2, evo)"
  shows "RunE w g ts =
     (if scanner_length w ts > 0 then
        \<lparr> events = (set_level (g \<lparr> outputFormat := ToLower (outputFormat g) \<rparr>) @ evl @
            [NewUdpProbeScanner
               (scanner_args_of lg (g \<lparr> outputFormat := ToLower (outputFormat g) \<rparr>))])
            @ [LogInfo lg ''Starting scanner'', Scan ts, LogInfo lg ''Scan complete'', Length] @ evo @ [save fmt f] @ deferred outf @ deferred lf,
          outcome = Return e2 \<rparr>
      else
        \<lparr> events = (set_level (g \<lparr> outputFormat := ToLower (outputFormat g) \<rparr>) @ evl @
            [NewUdpProbeScanner
               (scanner_args_of lg (g \<lparr> outputFormat := ToLower (outputFormat g) \<rparr>))])
            @ [LogInfo lg ''Starting scanner'', Scan ts, LogInfo lg ''Scan complete'', Length] @ deferred lf,
          outcome = Return None \<rparr>)"
  using assms by (simp add: RunE_def Let_def)

lemma RunE_constructs:
  assumes "NewUdpProbeScanner a \<in> set (events (RunE w g ts))"
  shows "check_config (g \<lparr> outputFormat := ToLower (outputFormat g) \<rparr>) = None
     \<and> a = scanner_args_of (fst (open_log w (g \<lparr> outputFormat := ToLower (outputFormat g) \<rparr>)))
              (g \<lparr> outputFormat := ToLower (outputFormat g) \<rparr>)"
proof -
  let ?g = "g \<lparr> outputFormat := ToLower (outputFormat g) \<rparr>"
  obtain lg lf e1 evl where ol: "open_log w ?g = (lg, lf, e1, evl)"
    by (cases "open_log w ?g") auto
  obtain f fmt outf e2 evo where oo: "open_output w ?g lg = (f, fmt, outf, e2, evo)"
    by (cases "open_output w ?g lg") auto
  show ?thesis
  proof (cases "check_config ?g")
    case (Some e)
    then have "RunE w g ts = \<lparr> events = [], outcome = Return (Some e) \<rparr>"
      by (rule RunE_check_fails)
    with assms show ?thesis by simp
  next
    case None
    show ?thesis
    proof (cases "scanner_err w (scanner_args_of lg ?g)")
      case (Some e)
      from assms open_log_events[OF ol, of a] set_level_events[of a ?g] ol None
      show ?thesis by (simp add: RunE_fatal[OF None ol Some])
    next
      case n: None
      from assms open_log_events[OF ol, of a] set_level_events[of a ?g] ol None
        open_output_events[OF oo, of a] deferred_events[of a] save_not_call[of a]
      show ?thesis by (simp add: RunE_scans[OF None ol n oo] split: if_splits)
    qed
  qed
qed

lemma open_log_logger:
  "open_log w g = (lg, lf, e1, evl) \<Longrightarrow>
   lg = (if logPath g = [] \<or> log_open_err w \<noteq> None then stderr_logger g
         else \<lparr> out = Opened (logPath g), console = (logFormat g = ''pretty'') \<rparr>)"
  by (cases "log_open_err w") (auto simp: open_log_def split: if_splits)

lemma open_output_result:
  "open_output w g lg = (f, fmt, outf, e2, evo) \<Longrightarrow>
   f = (if outputPath g = [] \<or> output_open_err w \<noteq> None then Stdout else Opened (outputPath g))
   \<and> fmt = (if outputFormat g = ''auto'' then (if f = Stdout then ''pretty'' else ''json'')
            else outputFormat g)
   \<and> e2 = (if outputPath g = [] then None else output_open_err w)"
  by (cases "output_open_err w") (auto simp: open_output_def split: if_splits)

lemmas config_defs =
  initial_globals_def check_config_def refused_def supportedOutputFormats_def
  supportedLogFormats_def

lemmas RunE_defs =
  RunE_def Let_def open_log_def open_output_def set_level_def scanner_args_of_def
  stderr_logger_def save_def deferred_def outputFlags_def logFileFlags_def

lemma RunE_json_to_file:
  "RunE calm_world json_to_file [''example.com''] =
     \<lparr> events =
         [SetGlobalLevel InfoLevel,
          NewUdpProbeScanner (scanner_args_of (stderr_logger initial_globals) initial_globals),
          LogInfo (stderr_logger initial_globals) ''Starting scanner'',
          Scan [''example.com''],
          LogInfo (stderr_logger initial_globals) ''Scan complete'',
          Length,
          OpenFile ''out.json'' {O_WRONLY, O_CREATE, O_APPEND},
          SaveJson (Opened ''out.json''),
          Close (Opened ''out.json'')],
       outcome = Return None \<rparr>"
  by (simp add: json_to_file_def ToLower_JSON config_defs RunE_defs calm_world_def insert_commute)

lemma RunE_scan_targets:
  assumes "Scan t \<in> set (events (RunE w g ts))"
  shows "t = ts"
proof -
  let ?g = "g \<lparr> outputFormat := ToLower (outputFormat g) \<rparr>"
  obtain lg lf e1 evl where ol: "open_log w ?g = (lg, lf, e1, evl)"
    by (cases "open_log w ?g") auto
  obtain f fmt outf e2 evo where oo: "open_output w ?g lg = (f, fmt, outf, e2, evo)"
    by (cases "open_output w ?g lg") auto
  show ?thesis
  proof (cases "check_config ?g")
    case (Some e)
    with assms show ?thesis by (simp add: RunE_check_fails)
  next
    case None
    show ?thesis
    proof (cases "scanner_err w (scanner_args_of lg ?g)")
      case (Some e)
      from assms open_log_events[OF ol, of _ t] set_level_events[of _ ?g t]
      show ?thesis by (simp add: RunE_fatal[OF None ol Some])
    next
      case n: None
      from assms open_log_events[OF ol, of _ t] set_level_events[of _ ?g t]
        open_output_events[OF oo, of _ t] deferred_events[where t=t] save_not_call[where t=t]
      show ?thesis by (simp add: RunE_scans[OF None ol n oo] split: if_splits)
    qed
  qed
qed

lemma set_flag_socks:
  "set_flag f g = Inr g' \<Longrightarrow>
   socks5Address g' = socks5Address g \<and> socks5User g' = socks5User g
   \<and> socks5Password g' = socks5Password g \<and> socks5Timeout g' = socks5Timeout g"
  by (cases f) auto

lemma parse_flags_socks:
  "parse_flags fs g = Inr g' \<Longrightarrow>
   socks5Address g' = socks5Address g \<and> socks5User g' = socks5User g
   \<and> socks5Password g' = socks5Password g \<and> socks5Timeout g' = socks5Timeout g"
proof (induction fs arbitrary: g)
  case Nil
  then show ?case by simp
next
  case (Cons f fs)
  then obtain g1 where 1: "set_flag f g = Inr g1" and 2: "parse_flags fs g1 = Inr g'"
    by (auto split: sum.splits)
  from Cons.IH[OF 2] set_flag_socks[OF 1] show ?case by simp
qed

lemma rootCmd_Execute_Ran:
  "rootCmd_Execute w flags ts = Ran r \<Longrightarrow>
   \<exists>g. parse_flags flags initial_globals = Inr g \<and> ts \<noteq> [] \<and> r = RunE w g ts"
  by (auto simp: rootCmd_Execute_def MinimumNArgs_def split: sum.splits option.splits if_splits)

lemma parse_json_to_file:
  "parse_flags [Flag_output ''out.json'', Flag_format ''JSON''] initial_globals = Inr json_to_file"
  by (simp add: json_to_file_def initial_globals_def)

lemma Execute_json_to_file:
  "rootCmd_Execute calm_world [Flag_output ''out.json'', Flag_format ''JSON''] [''example.com'']
     = Ran (RunE calm_world json_to_file [''example.com''])"
  by (simp add: rootCmd_Execute_def json_to_file_def MinimumNArgs_def completion_request_def
        helpVal_def versionVal_def)

lemma RunE_logged_to_file:
  "RunE readonly_world logged_to_file [''example.com''] =
     \<lparr> events =
         [SetGlobalLevel InfoLevel,
          OpenFile ''udpz.log'' {O_WRONLY, O_CREATE, O_APPEND},
          LogError (stderr_logger initial_globals) ''Could not open log file for writing'',
          NewUdpProbeScanner (scanner_args_of (stderr_logger initial_globals) initial_globals),
          LogInfo (stderr_logger initial_globals) ''Starting scanner'',
          Scan [''example.com''],
          LogInfo (stderr_logger initial_globals) ''Scan complete'',
          Length,
          OpenFile ''out.txt'' {O_WRONLY, O_CREATE, O_APPEND},
          LogError (stderr_logger initial_globals) ''Could not open output file for writing'',
          SaveTable ''pretty'' Stdout],
       outcome = Return (Some ''permission denied'') \<rparr>"
  by (simp add: logged_to_file_def ToLower_auto config_defs RunE_defs readonly_world_def
        insert_commute)

lemma RunE_to_file:
  "RunE readonly_world to_file [''example.com''] =
     \<lparr> events =
         [SetGlobalLevel InfoLevel,
          NewUdpProbeScanner (scanner_args_of (stderr_logger initial_globals) initial_globals),
          LogInfo (stderr_logger initial_globals) ''Starting scanner'',
          Scan [''example.com''],
          LogInfo (stderr_logger initial_globals) ''Scan complete'',
          Length,
          OpenFile ''out.txt'' {O_WRONLY, O_CREATE, O_APPEND},
          LogError (stderr_logger initial_globals) ''Could not open output file for writing'',
          SaveTable ''pretty'' Stdout],
       outcome = Return (Some ''permission denied'') \<rparr>"
  by (simp add: to_file_def ToLower_auto config_defs RunE_defs readonly_world_def insert_commute)

lemma RunE_log_to_file:
  "RunE readonly_world log_to_file [''example.com''] =
     \<lparr> events =
         [SetGlobalLevel InfoLevel,
          OpenFile ''udpz.log'' {O_WRONLY, O_CREATE, O_APPEND},
          LogError (stderr_logger initial_globals) ''Could not open log file for writing'',
          NewUdpProbeScanner (scanner_args_of (stderr_logger initial_globals) initial_globals),
          LogInfo (stderr_logger initial_globals) ''Starting scanner'',
          Scan [''example.com''],
          LogInfo (stderr_logger initial_globals) ''Scan complete'',
          Length,
          SaveTable ''pretty'' Stdout],
       outcome = Return None \<rparr>"
  by (simp add: log_to_file_def ToLower_auto config_defs RunE_defs readonly_world_def insert_commute)

subsection \<open>Configuration errors\<close>

text \<open>
  Claim C1, as the code has it. When the host concurrency, the port concurrency or the
  timeout is 0, \<^verbatim>\<open>RunE\<close> returns an error with no event at all: no scanner is
  constructed and no scan is started. The error is "concurrency value must be > 0" or
  "timeout value must be > 0" when both format names are supported; the two format
  checks come first. Conversely, when \<^verbatim>\<open>NewUdpProbeScanner\<close> is called and returns an
  error, the run ends in \<^verbatim>\<open>log.Fatal\<close>, with exit status 1 and without a scan.
\<close>

theorem zero_setting_fails_before_scanner:
  "(hostConcurrency g = 0 \<or> portConcurrency g = 0 \<or> timeoutMs g = 0 \<longrightarrow>
      (\<exists>e. RunE w g ts = \<lparr> events = [], outcome = Return (Some e) \<rparr>)
      \<and> (\<not> refused supportedOutputFormats (ToLower (outputFormat g))
           \<and> \<not> refused supportedLogFormats (logFormat g) \<longrightarrow>
         outcome (RunE w g ts) =
           Return (Some (if portConcurrency g = 0 \<or> hostConcurrency g = 0
                         then ''concurrency value must be > 0''
                         else ''timeout value must be > 0''))))
   \<and> (NewUdpProbeScanner a \<in> set (events (RunE w' g' ts')) \<and> scanner_err w' a = Some e' \<longrightarrow>
        outcome (RunE w' g' ts') = Exit 1
        \<and> (\<exists>lg. last (events (RunE w' g' ts')) = LogFatal lg ''Failed to initialize scanner'')
        \<and> Scan t \<notin> set (events (RunE w' g' ts')))"
proof (intro conjI impI)
  assume z: "hostConcurrency g = 0 \<or> portConcurrency g = 0 \<or> timeoutMs g = 0"
  let ?g = "g \<lparr> outputFormat := ToLower (outputFormat g) \<rparr>"
  from z have "\<exists>e. check_config ?g = Some e"
    by (intro check_config_zero) simp
  then show "\<exists>e. RunE w g ts = \<lparr> events = [], outcome = Return (Some e) \<rparr>"
    using RunE_check_fails by blast
  assume "\<not> refused supportedOutputFormats (ToLower (outputFormat g))
           \<and> \<not> refused supportedLogFormats (logFormat g)"
  with z have "check_config ?g = Some (if portConcurrency g = 0 \<or> hostConcurrency g = 0
                         then ''concurrency value must be > 0''
                         else ''timeout value must be > 0'')"
    by (auto simp: check_config_def word_less_1)
  then show "outcome (RunE w g ts) =
           Return (Some (if portConcurrency g = 0 \<or> hostConcurrency g = 0
                         then ''concurrency value must be > 0''
                         else ''timeout value must be > 0''))"
    by (simp add: RunE_check_fails)
next
  assume h: "NewUdpProbeScanner a \<in> set (events (RunE w' g' ts')) \<and> scanner_err w' a = Some e'"
  let ?g = "g' \<lparr> outputFormat := ToLower (outputFormat g') \<rparr>"
  obtain lg lf e1 evl where ol: "open_log w' ?g = (lg, lf, e1, evl)"
    by (cases "open_log w' ?g") auto
  from h RunE_constructs[of a w' g' ts'] ol
  have c: "check_config ?g = None" and a: "a = scanner_args_of lg ?g" by simp_all
  from h a have "scanner_err w' (scanner_args_of lg ?g) = Some e'" by simp
  note r = RunE_fatal[OF c ol this, of ts']
  show "outcome (RunE w' g' ts') = Exit 1" by (simp add: r)
  show "\<exists>lg. last (events (RunE w' g' ts')) = LogFatal lg ''Failed to initialize scanner''"
    by (simp add: r)
  show "Scan t \<notin> set (events (RunE w' g' ts'))"
    using open_log_events[OF ol, of a t] set_level_events[of a ?g t] by (simp add: r)
qed

theorem zero_setting_fails_before_scanner_witness:
  "(\<exists>e. RunE calm_world (initial_globals \<lparr> timeoutMs := 0 \<rparr>) [''example.com'']
         = \<lparr> events = [], outcome = Return (Some e) \<rparr>)
   \<and> outcome (RunE calm_world (initial_globals \<lparr> timeoutMs := 0 \<rparr>) [''example.com''])
       = Return (Some ''timeout value must be > 0'')
   \<and> outcome (RunE failing_world initial_globals [''example.com'']) = Exit 1"
proof -
  have 1: "NewUdpProbeScanner (scanner_args_of (stderr_logger initial_globals) initial_globals)
      \<in> set (events (RunE failing_world initial_globals [''example.com'']))"
    by (simp add: RunE_def ToLower_auto config_defs open_log_def Let_def failing_world_def)
  have 2: "scanner_err failing_world
             (scanner_args_of (stderr_logger initial_globals) initial_globals) = Some ''no scanner''"
    by (simp add: failing_world_def)
  show ?thesis
    using zero_setting_fails_before_scanner
            [of "initial_globals \<lparr> timeoutMs := 0 \<rparr>" calm_world "[''example.com'']"
                "scanner_args_of (stderr_logger initial_globals) initial_globals"
                failing_world initial_globals "[''example.com'']" "''no scanner''"] 1 2
    by (simp add: ToLower_auto initial_globals_def refused_def supportedOutputFormats_def
          supportedLogFormats_def)
qed

text \<open>
  With an unsupported output format and a host concurrency of 0, the error returned is
  the one of the format check, not one of the two messages of claim C1.
\<close>

theorem zero_concurrency_after_format_check:
  "hostConcurrency (initial_globals \<lparr> outputFormat := ''xml'', hostConcurrency := 0 \<rparr>) = 0
   \<and> outcome (RunE calm_world (initial_globals \<lparr> outputFormat := ''xml'', hostConcurrency := 0 \<rparr>)
                 [''example.com''])
       = Return (Some ''invalid output format: xml'')
   \<and> outcome (RunE calm_world (initial_globals \<lparr> outputFormat := ''xml'', hostConcurrency := 0 \<rparr>)
                 [''example.com''])
       \<noteq> Return (Some ''concurrency value must be > 0'')
   \<and> outcome (RunE calm_world (initial_globals \<lparr> outputFormat := ''xml'', hostConcurrency := 0 \<rparr>)
                 [''example.com''])
       \<noteq> Return (Some ''timeout value must be > 0'')"
  by (simp add: RunE_check_fails[where e="''invalid output format: xml''"] ToLower_xml config_defs)

subsection \<open>Format names\<close>

text \<open>
  Claim C9. The output format is looked up after \<^verbatim>\<open>strings.ToLower\<close>, so a run does
  not depend on the case of its letters; the log format is looked up as it was given.
  With \<^verbatim>\<open>JSON\<close> as output format the run passes the checks and reaches the
  construction of the scanner; with \<^verbatim>\<open>JSON\<close> as log format it returns
  "invalid log format: JSON" and does nothing else.
\<close>

theorem output_format_folded_log_format_not:
  "RunE w (g \<lparr> outputFormat := s \<rparr>) ts = RunE w (g \<lparr> outputFormat := ToLower s \<rparr>) ts
   \<and> (\<exists>a. NewUdpProbeScanner a
          \<in> set (events (RunE w (initial_globals \<lparr> outputFormat := ''JSON'' \<rparr>) ts)))
   \<and> RunE w (initial_globals \<lparr> logFormat := ''JSON'' \<rparr>) ts
       = \<lparr> events = [], outcome = Return (Some ''invalid log format: JSON'') \<rparr>"
proof (intro conjI)
  show "RunE w (g \<lparr> outputFormat := s \<rparr>) ts = RunE w (g \<lparr> outputFormat := ToLower s \<rparr>) ts"
    by (simp add: RunE_def ToLower_idem)
  show "\<exists>a. NewUdpProbeScanner a
          \<in> set (events (RunE w (initial_globals \<lparr> outputFormat := ''JSON'' \<rparr>) ts))"
    by (auto simp add: RunE_def ToLower_JSON config_defs open_log_def Let_def
          split: option.splits prod.splits)
  show "RunE w (initial_globals \<lparr> logFormat := ''JSON'' \<rparr>) ts
       = \<lparr> events = [], outcome = Return (Some ''invalid log format: JSON'') \<rparr>"
    by (rule RunE_check_fails) (simp add: ToLower_auto config_defs)
qed

subsection \<open>Export\<close>

text \<open>
  Claim C6. In a run whose scanner was constructed, the events up to \<^verbatim>\<open>Scan\<close> hold no
  exporter call, and the events after it hold exactly one when \<^verbatim>\<open>Length() > 0\<close> and
  none otherwise. The exporter is \<^verbatim>\<open>SaveJson\<close> for json and jsonl, \<^verbatim>\<open>SaveYAML\<close> for
  yaml and yml, \<^verbatim>\<open>SaveTable\<close> with the format name for the rest, where the format is the
  lowered flag value and auto stands for pretty on standard output (no output path, or
  the open failed) and for json on an opened output file. No run calls an exporter
  without having scanned with a positive length.
\<close>

theorem one_exporter_after_scan:
  "(NewUdpProbeScanner a \<in> set (events (RunE w g ts)) \<and> scanner_err w a = None \<longrightarrow>
     (let f = (if outputPath g = [] \<or> output_open_err w \<noteq> None then Stdout
               else Opened (outputPath g));
          fmt0 = ToLower (outputFormat g);
          fmt = (if fmt0 = ''auto'' then (if f = Stdout then ''pretty'' else ''json'') else fmt0);
          exporter = (if fmt = ''json'' \<or> fmt = ''jsonl'' then SaveJson f
                      else if fmt = ''yaml'' \<or> fmt = ''yml'' then SaveYAML f
                      else SaveTable fmt f)
      in \<exists>pre post. events (RunE w g ts) = pre @ Scan ts # post
            \<and> filter is_export pre = []
            \<and> filter is_export post = (if scanner_length w ts > 0 then [exporter] else [])))
   \<and> (filter is_export (events (RunE w' g' ts')) \<noteq> [] \<longrightarrow>
        Scan ts' \<in> set (events (RunE w' g' ts')) \<and> scanner_length w' ts' > 0)"
proof (intro conjI impI)
  assume h: "NewUdpProbeScanner a \<in> set (events (RunE w g ts)) \<and> scanner_err w a = None"
  let ?g = "g \<lparr> outputFormat := ToLower (outputFormat g) \<rparr>"
  obtain lg lf e1 evl where ol: "open_log w ?g = (lg, lf, e1, evl)"
    by (cases "open_log w ?g") auto
  obtain f fmt outf e2 evo where oo: "open_output w ?g lg = (f, fmt, outf, e2, evo)"
    by (cases "open_output w ?g lg") auto
  from h RunE_constructs[of a w g ts] ol
  have c: "check_config ?g = None" and a: "a = scanner_args_of lg ?g" by simp_all
  from h a have n: "scanner_err w (scanner_args_of lg ?g) = None" by simp
  note r = RunE_scans[OF c ol n oo, of ts]
  let ?pre = "set_level ?g @ evl @ [NewUdpProbeScanner (scanner_args_of lg ?g),
                LogInfo lg ''Starting scanner'']"
  let ?post = "if scanner_length w ts > 0
     then [LogInfo lg ''Scan complete'', Length] @ evo @ [save fmt f] @ deferred outf @ deferred lf
     else [LogInfo lg ''Scan complete'', Length] @ deferred lf"
  have e: "events (RunE w g ts) = ?pre @ Scan ts # ?post" by (simp add: r)
  have p1: "filter is_export ?pre = []"
    using open_log_events[OF ol] set_level_events[of _ ?g] by simp
  have p2: "filter is_export ?post = (if scanner_length w ts > 0 then [save fmt f] else [])"
    using open_output_events[OF oo] deferred_events save_is_export[of fmt f] by simp
  from open_output_result[OF oo]
  have f: "f = (if outputPath g = [] \<or> output_open_err w \<noteq> None then Stdout
               else Opened (outputPath g))"
    and fmt: "fmt = (if ToLower (outputFormat g) = ''auto''
                     then (if f = Stdout then ''pretty'' else ''json'')
                     else ToLower (outputFormat g))"
    by simp_all
  have s: "save fmt f = (if fmt = ''json'' \<or> fmt = ''jsonl'' then SaveJson f
                      else if fmt = ''yaml'' \<or> fmt = ''yml'' then SaveYAML f
                      else SaveTable fmt f)"
    by (auto simp: save_def)
  show "let f = (if outputPath g = [] \<or> output_open_err w \<noteq> None then Stdout
               else Opened (outputPath g));
          fmt0 = ToLower (outputFormat g);
          fmt = (if fmt0 = ''auto'' then (if f = Stdout then ''pretty'' else ''json'') else fmt0);
          exporter = (if fmt = ''json'' \<or> fmt = ''jsonl'' then SaveJson f
                      else if fmt = ''yaml'' \<or> fmt = ''yml'' then SaveYAML f
                      else SaveTable fmt f)
      in \<exists>pre post. events (RunE w g ts) = pre @ Scan ts # post
            \<and> filter is_export pre = []
            \<and> filter is_export post = (if scanner_length w ts > 0 then [exporter] else [])"
    unfolding Let_def
    apply (rule exI[of _ ?pre], rule exI[of _ ?post])
    using e p1 p2 s f fmt by simp
next
  assume h: "filter is_export (events (RunE w' g' ts')) \<noteq> []"
  let ?g = "g' \<lparr> outputFormat := ToLower (outputFormat g') \<rparr>"
  obtain lg lf e1 evl where ol: "open_log w' ?g = (lg, lf, e1, evl)"
    by (cases "open_log w' ?g") auto
  obtain f fmt outf e2 evo where oo: "open_output w' ?g lg = (f, fmt, outf, e2, evo)"
    by (cases "open_output w' ?g lg") auto
  have "Scan ts' \<in> set (events (RunE w' g' ts')) \<and> scanner_length w' ts' > 0"
  proof (cases "check_config ?g")
    case (Some e)
    with h show ?thesis by (simp add: RunE_check_fails)
  next
    case None
    show ?thesis
    proof (cases "scanner_err w' (scanner_args_of lg ?g)")
      case (Some e)
      from h open_log_events[OF ol] set_level_events[of _ ?g]
      show ?thesis by (simp add: RunE_fatal[OF None ol Some])
    next
      case n: None
      from h open_log_events[OF ol] set_level_events[of _ ?g] deferred_events
      show ?thesis by (simp add: RunE_scans[OF None ol n oo] split: if_splits)
    qed
  qed
  then show "Scan ts' \<in> set (events (RunE w' g' ts'))" and "scanner_length w' ts' > 0"
    by simp_all
qed

theorem one_exporter_after_scan_witness:
  "(\<exists>pre post. events (RunE calm_world json_to_file [''example.com''])
        = pre @ Scan [''example.com''] # post
      \<and> filter is_export pre = []
      \<and> filter is_export post = [SaveJson (Opened ''out.json'')])
   \<and> Scan [''example.com''] \<in> set (events (RunE calm_world json_to_file [''example.com'']))
   \<and> scanner_length calm_world [''example.com''] > 0"
proof -
  have 1: "NewUdpProbeScanner (scanner_args_of (stderr_logger initial_globals) initial_globals)
      \<in> set (events (RunE calm_world json_to_file [''example.com'']))"
    by (simp add: RunE_json_to_file)
  have 2: "scanner_err calm_world (scanner_args_of (stderr_logger initial_globals) initial_globals)
      = None"
    by (simp add: calm_world_def)
  have 3: "filter is_export (events (RunE calm_world json_to_file [''example.com''])) \<noteq> []"
    by (simp add: RunE_json_to_file)
  have 4: "outputPath json_to_file = ''out.json''" "ToLower (outputFormat json_to_file) = ''json''"
    "output_open_err calm_world = None" "scanner_length calm_world [''example.com''] = 1"
    by (simp_all add: json_to_file_def initial_globals_def ToLower_JSON calm_world_def)
  show ?thesis
    using one_exporter_after_scan
            [of "scanner_args_of (stderr_logger initial_globals) initial_globals"
                calm_world json_to_file "[''example.com'']"
                calm_world json_to_file "[''example.com'']"] 1 2 3
    by (simp add: 4)
qed

subsection \<open>The proxy settings\<close>

text \<open>
  Claim C8. No registered flag is bound to a proxy variable, so whatever flags the
  command line holds, the four proxy variables keep their initial values, and every
  call of \<^verbatim>\<open>NewUdpProbeScanner\<close> made by the command gets the empty string as proxy
  address, user and password, and 3000 as proxy timeout.
\<close>

theorem proxy_settings_stay_initial:
  "(parse_flags flags initial_globals = Inr g \<longrightarrow>
      socks5Address g = [] \<and> socks5User g = [] \<and> socks5Password g = []
      \<and> socks5Timeout g = 3000)
   \<and> (rootCmd_Execute w flags' ts = Ran r \<and> NewUdpProbeScanner a \<in> set (events r) \<longrightarrow>
        arg_socks5Address a = [] \<and> arg_socks5User a = [] \<and> arg_socks5Password a = []
        \<and> arg_socks5Timeout a = 3000)"
proof (intro conjI impI)
  assume "parse_flags flags initial_globals = Inr g"
  from parse_flags_socks[OF this]
  show "socks5Address g = []" "socks5User g = []" "socks5Password g = []" "socks5Timeout g = 3000"
    by (simp_all add: initial_globals_def)
next
  assume h: "rootCmd_Execute w flags' ts = Ran r \<and> NewUdpProbeScanner a \<in> set (events r)"
  then obtain g' where p: "parse_flags flags' initial_globals = Inr g'" and r: "r = RunE w g' ts"
    using rootCmd_Execute_Ran by blast
  from h r RunE_constructs[of a w g' ts]
  have a: "a = scanner_args_of (fst (open_log w (g' \<lparr> outputFormat := ToLower (outputFormat g') \<rparr>)))
              (g' \<lparr> outputFormat := ToLower (outputFormat g') \<rparr>)"
    by simp
  from parse_flags_socks[OF p]
  have s: "socks5Address g' = []" "socks5User g' = []" "socks5Password g' = []"
    "socks5Timeout g' = 3000"
    by (simp_all add: initial_globals_def)
  show "arg_socks5Address a = []" "arg_socks5User a = []" "arg_socks5Password a = []"
    "arg_socks5Timeout a = 3000"
    by (simp_all add: a scanner_args_of_def s)
qed

theorem proxy_settings_stay_initial_witness:
  "socks5Address json_to_file = [] \<and> socks5User json_to_file = []
   \<and> socks5Password json_to_file = [] \<and> socks5Timeout json_to_file = 3000
   \<and> arg_socks5Address (scanner_args_of (stderr_logger initial_globals) initial_globals) = []
   \<and> arg_socks5User (scanner_args_of (stderr_logger initial_globals) initial_globals) = []
   \<and> arg_socks5Password (scanner_args_of (stderr_logger initial_globals) initial_globals) = []
   \<and> arg_socks5Timeout (scanner_args_of (stderr_logger initial_globals) initial_globals) = 3000"
proof -
  have 1: "NewUdpProbeScanner (scanner_args_of (stderr_logger initial_globals) initial_globals)
      \<in> set (events (RunE calm_world json_to_file [''example.com'']))"
    by (simp add: RunE_json_to_file)
  show ?thesis
    using proxy_settings_stay_initial[of "[Flag_output ''out.json'', Flag_format ''JSON'']" json_to_file calm_world
          "[Flag_output ''out.json'', Flag_format ''JSON'']" "[''example.com'']"
          "RunE calm_world json_to_file [''example.com'']"
          "scanner_args_of (stderr_logger initial_globals) initial_globals"]
      parse_json_to_file Execute_json_to_file 1
    by simp
qed

subsection \<open>Positional arguments\<close>

text \<open>
  Claim C10, as the code has it. With no positional argument \<^verbatim>\<open>RunE\<close> is never
  entered. Unless the help flag or the version flag is set, the command returns an
  error before \<^verbatim>\<open>RunE\<close>, the one of \<^verbatim>\<open>MinimumNArgs(1)\<close> whenever the flags parse, and
  the process exits with status 1; with one of the two flags set and flags that parse,
  cobra prints the help text or the version and the process exits with status 0. Every
  \<^verbatim>\<open>Scan\<close> the command makes is given the positional arguments, which are not empty.
\<close>

theorem no_targets_no_run:
  "rootCmd_Execute w flags [] \<noteq> Ran r
   \<and> (\<not> helpVal flags \<and> \<not> versionVal flags \<longrightarrow>
        (\<exists>e. rootCmd_Execute w flags [] = Refused e) \<and> Execute w flags [] = 1)
   \<and> (parse_flags flags initial_globals = Inr g \<and> \<not> helpVal flags \<and> \<not> versionVal flags \<longrightarrow>
        rootCmd_Execute w flags [] = Refused (TooFewArgs 1 0))
   \<and> (parse_flags flags'' initial_globals = Inr g'' \<and> (helpVal flags'' \<or> versionVal flags'') \<longrightarrow>
        rootCmd_Execute w flags'' [] = (if helpVal flags'' then Helped else Versioned)
        \<and> Execute w flags'' [] = 0)
   \<and> (rootCmd_Execute w' flags' ts = Ran r' \<and> Scan t \<in> set (events r') \<longrightarrow>
        t = ts \<and> ts \<noteq> [])"
proof (intro conjI impI)
  show "rootCmd_Execute w flags [] \<noteq> Ran r"
    by (simp add: rootCmd_Execute_def MinimumNArgs_def completion_request_def split: sum.splits)
next
  assume h: "\<not> helpVal flags \<and> \<not> versionVal flags"
  then show 1: "\<exists>e. rootCmd_Execute w flags [] = Refused e"
    by (simp add: rootCmd_Execute_def MinimumNArgs_def completion_request_def split: sum.splits)
  then show "Execute w flags [] = 1"
    by (auto simp: Execute_def)
next
  assume "parse_flags flags initial_globals = Inr g \<and> \<not> helpVal flags \<and> \<not> versionVal flags"
  then show "rootCmd_Execute w flags [] = Refused (TooFewArgs 1 0)"
    by (simp add: rootCmd_Execute_def MinimumNArgs_def completion_request_def)
next
  assume h: "parse_flags flags'' initial_globals = Inr g'' \<and> (helpVal flags'' \<or> versionVal flags'')"
  then show 1: "rootCmd_Execute w flags'' [] = (if helpVal flags'' then Helped else Versioned)"
    by (auto simp: rootCmd_Execute_def MinimumNArgs_def completion_request_def)
  then show "Execute w flags'' [] = 0"
    by (simp add: Execute_def)
next
  assume h: "rootCmd_Execute w' flags' ts = Ran r' \<and> Scan t \<in> set (events r')"
  then obtain g' where "ts \<noteq> []" and r: "r' = RunE w' g' ts"
    using rootCmd_Execute_Ran by blast
  then show "ts \<noteq> []" by simp
  from h r show "t = ts" using RunE_scan_targets by blast
qed

theorem no_targets_no_run_witness:
  "rootCmd_Execute calm_world [Flag_output ''out.json'', Flag_format ''JSON''] []
       = Refused (TooFewArgs 1 0)
   \<and> Execute calm_world [Flag_output ''out.json'', Flag_format ''JSON''] [] = 1
   \<and> rootCmd_Execute calm_world [Flag_format ''JSON'', Flag_help True] [] = Helped
   \<and> Execute calm_world [Flag_format ''JSON'', Flag_help True] [] = 0
   \<and> [''example.com''] \<noteq> ([] :: string list)"
proof -
  have 1: "Scan [''example.com''] \<in> set (events (RunE calm_world json_to_file [''example.com'']))"
    by (simp add: RunE_json_to_file)
  have 2: "\<not> helpVal [Flag_output ''out.json'', Flag_format ''JSON'']"
    "\<not> versionVal [Flag_output ''out.json'', Flag_format ''JSON'']"
    "helpVal [Flag_format ''JSON'', Flag_help True]"
    "parse_flags [Flag_format ''JSON'', Flag_help True] initial_globals
       = Inr (initial_globals \<lparr> outputFormat := ''JSON'' \<rparr>)"
    by (simp_all add: helpVal_def versionVal_def)
  show ?thesis
    using no_targets_no_run
            [of calm_world "[Flag_output ''out.json'', Flag_format ''JSON'']"
                "RunE calm_world json_to_file [''example.com'']" json_to_file
                "[Flag_format ''JSON'', Flag_help True]"
                "initial_globals \<lparr> outputFormat := ''JSON'' \<rparr>"
                calm_world "[Flag_output ''out.json'', Flag_format ''JSON'']" "[''example.com'']"
                "RunE calm_world json_to_file [''example.com'']" "[''example.com'']"]
      parse_json_to_file Execute_json_to_file 1 2
    by simp
qed

text \<open>
  With the version flag and no target the command prints its version and succeeds:
  there is no usage error.
\<close>

theorem version_flag_without_targets:
  "rootCmd_Execute calm_world [Flag_version True] [] = Versioned
   \<and> Execute calm_world [Flag_version True] [] = 0"
  by (simp add: Execute_def rootCmd_Execute_def completion_request_def helpVal_def versionVal_def)

subsection \<open>Files that cannot be opened\<close>

text \<open>
  What \<^verbatim>\<open>RunE\<close> does when a file cannot be opened. When the checks pass and the log
  file cannot be opened, the logger writes to standard error, the failure is logged on
  it as an error, the scanner is constructed with that logger, and, unless the
  construction itself fails, the scan runs, results are exported when there are any,
  and the error of the log file is not what \<^verbatim>\<open>RunE\<close> returns. When the output file
  cannot be opened, the failure is logged as an error, the one exporter call writes to
  standard output, with auto standing for pretty, and \<^verbatim>\<open>RunE\<close> returns the error of
  that open.
\<close>

lemma open_failure_behaviour:
  "(check_config (g \<lparr> outputFormat := ToLower (outputFormat g) \<rparr>) = None
      \<and> logPath g \<noteq> [] \<and> log_open_err w = Some e \<longrightarrow>
     (let lg = \<lparr> out = Stderr, console = (logFormat g = ''auto'' \<or> logFormat g = ''pretty'') \<rparr>
      in LogError lg ''Could not open log file for writing'' \<in> set (events (RunE w g ts))
         \<and> (\<exists>a. NewUdpProbeScanner a \<in> set (events (RunE w g ts)) \<and> arg_log a = lg
               \<and> (scanner_err w a = None \<longrightarrow>
                     Scan ts \<in> set (events (RunE w g ts))
                     \<and> (scanner_length w ts > 0 \<longrightarrow>
                           filter is_export (events (RunE w g ts)) \<noteq> [])
                     \<and> outcome (RunE w g ts) =
                         Return (if scanner_length w ts > 0 \<and> outputPath g \<noteq> []
                                 then output_open_err w else None)))))
   \<and> (NewUdpProbeScanner a' \<in> set (events (RunE w' g' ts')) \<and> scanner_err w' a' = None
        \<and> scanner_length w' ts' > 0 \<and> outputPath g' \<noteq> [] \<and> output_open_err w' = Some e' \<longrightarrow>
        LogError (arg_log a') ''Could not open output file for writing''
          \<in> set (events (RunE w' g' ts'))
        \<and> Scan ts' \<in> set (events (RunE w' g' ts'))
        \<and> filter is_export (events (RunE w' g' ts')) =
            [let fmt = (if ToLower (outputFormat g') = ''auto'' then ''pretty''
                        else ToLower (outputFormat g'))
             in if fmt = ''json'' \<or> fmt = ''jsonl'' then SaveJson Stdout
                else if fmt = ''yaml'' \<or> fmt = ''yml'' then SaveYAML Stdout
                else SaveTable fmt Stdout]
        \<and> outcome (RunE w' g' ts') = Return (Some e'))"
proof (intro conjI impI)
  assume h: "check_config (g \<lparr> outputFormat := ToLower (outputFormat g) \<rparr>) = None
      \<and> logPath g \<noteq> [] \<and> log_open_err w = Some e"
  let ?g = "g \<lparr> outputFormat := ToLower (outputFormat g) \<rparr>"
  let ?lg = "\<lparr> out = Stderr, console = (logFormat g = ''auto'' \<or> logFormat g = ''pretty'') \<rparr>"
  let ?a = "scanner_args_of ?lg ?g"
  from h have c: "check_config ?g = None" by simp
  from h have ol: "open_log w ?g = (?lg, None, Some e,
      [OpenFile (logPath g) logFileFlags, LogError ?lg ''Could not open log file for writing''])"
    by (simp add: open_log_def stderr_logger_def)
  obtain f fmt outf e2 evo where oo: "open_output w ?g ?lg = (f, fmt, outf, e2, evo)"
    by (cases "open_output w ?g ?lg") auto
  have e2: "e2 = (if outputPath g = [] then None else output_open_err w)"
    using open_output_result[OF oo] by simp
  have 1: "LogError ?lg ''Could not open log file for writing'' \<in> set (events (RunE w g ts))"
  proof (cases "scanner_err w ?a")
    case None
    show ?thesis by (simp add: RunE_scans[OF c ol None oo])
  next
    case (Some x)
    show ?thesis by (simp add: RunE_fatal[OF c ol Some])
  qed
  have 2: "NewUdpProbeScanner ?a \<in> set (events (RunE w g ts))"
  proof (cases "scanner_err w ?a")
    case None
    show ?thesis by (simp add: RunE_scans[OF c ol None oo])
  next
    case (Some x)
    show ?thesis by (simp add: RunE_fatal[OF c ol Some])
  qed
  have 3: "arg_log ?a = ?lg" by (simp add: scanner_args_of_def)
  have 4: "scanner_err w ?a = None \<longrightarrow>
             Scan ts \<in> set (events (RunE w g ts))
             \<and> (scanner_length w ts > 0 \<longrightarrow> filter is_export (events (RunE w g ts)) \<noteq> [])
             \<and> outcome (RunE w g ts) =
                 Return (if scanner_length w ts > 0 \<and> outputPath g \<noteq> []
                         then output_open_err w else None)"
  proof
    assume n: "scanner_err w ?a = None"
    show "Scan ts \<in> set (events (RunE w g ts))
             \<and> (scanner_length w ts > 0 \<longrightarrow> filter is_export (events (RunE w g ts)) \<noteq> [])
             \<and> outcome (RunE w g ts) =
                 Return (if scanner_length w ts > 0 \<and> outputPath g \<noteq> []
                         then output_open_err w else None)"
      using save_is_export[of fmt f] by (simp add: RunE_scans[OF c ol n oo] e2)
  qed
  show "let lg = \<lparr> out = Stderr, console = (logFormat g = ''auto'' \<or> logFormat g = ''pretty'') \<rparr>
      in LogError lg ''Could not open log file for writing'' \<in> set (events (RunE w g ts))
         \<and> (\<exists>a. NewUdpProbeScanner a \<in> set (events (RunE w g ts)) \<and> arg_log a = lg
               \<and> (scanner_err w a = None \<longrightarrow>
                     Scan ts \<in> set (events (RunE w g ts))
                     \<and> (scanner_length w ts > 0 \<longrightarrow>
                           filter is_export (events (RunE w g ts)) \<noteq> [])
                     \<and> outcome (RunE w g ts) =
                         Return (if scanner_length w ts > 0 \<and> outputPath g \<noteq> []
                                 then output_open_err w else None)))"
    unfolding Let_def by (intro conjI exI[of _ ?a] 1 2 3 4)
next
  assume h: "NewUdpProbeScanner a' \<in> set (events (RunE w' g' ts')) \<and> scanner_err w' a' = None
        \<and> scanner_length w' ts' > 0 \<and> outputPath g' \<noteq> [] \<and> output_open_err w' = Some e'"
  let ?g = "g' \<lparr> outputFormat := ToLower (outputFormat g') \<rparr>"
  obtain lg lf e1 evl where ol: "open_log w' ?g = (lg, lf, e1, evl)"
    by (cases "open_log w' ?g") auto
  from h RunE_constructs[of a' w' g' ts'] ol
  have c: "check_config ?g = None" and a: "a' = scanner_args_of lg ?g" by simp_all
  from h a have n: "scanner_err w' (scanner_args_of lg ?g) = None" by simp
  let ?fmt = "if ToLower (outputFormat g') = ''auto'' then ''pretty''
              else ToLower (outputFormat g')"
  from h have oo: "open_output w' ?g lg = (Stdout, ?fmt, None, Some e',
      [OpenFile (outputPath g') (outputFlags ?g),
       LogError lg ''Could not open output file for writing''])"
    by (simp add: open_output_def)
  note r = RunE_scans[OF c ol n oo, of ts']
  have al: "arg_log a' = lg" by (simp add: a scanner_args_of_def)
  from h have pos: "scanner_length w' ts' > 0" by simp
  show "LogError (arg_log a') ''Could not open output file for writing''
          \<in> set (events (RunE w' g' ts'))"
    using pos by (simp add: r al)
  show "Scan ts' \<in> set (events (RunE w' g' ts'))"
    using pos by (simp add: r)
  show "outcome (RunE w' g' ts') = Return (Some e')"
    using pos by (simp add: r)
  have s: "save ?fmt Stdout =
      (let fmt = ?fmt
       in if fmt = ''json'' \<or> fmt = ''jsonl'' then SaveJson Stdout
          else if fmt = ''yaml'' \<or> fmt = ''yml'' then SaveYAML Stdout
          else SaveTable fmt Stdout)"
    by (auto simp: save_def Let_def)
  have "filter is_export (events (RunE w' g' ts')) = [save ?fmt Stdout]"
    using pos open_log_events[OF ol] set_level_events[of _ ?g] deferred_events
      save_is_export[of ?fmt Stdout]
    by (simp add: r)
  then show "filter is_export (events (RunE w' g' ts')) =
            [let fmt = (if ToLower (outputFormat g') = ''auto'' then ''pretty''
                        else ToLower (outputFormat g'))
             in if fmt = ''json'' \<or> fmt = ''jsonl'' then SaveJson Stdout
                else if fmt = ''yaml'' \<or> fmt = ''yml'' then SaveYAML Stdout
                else SaveTable fmt Stdout]"
    by (simp only: s)
qed


text \<open>
  Claim C7 says that a file that cannot be opened does not make the command fail. The
  code handles both failures, and after a failed open of the log file \<^verbatim>\<open>RunE\<close> returns
  \<^verbatim>\<open>nil\<close> and the process exits with status 0. After a failed open of the output file
  the results are exported to standard output, but \<^verbatim>\<open>err\<close> still holds the error of
  line 233 when the bare \<^verbatim>\<open>return\<close> of line 259 is reached: \<^verbatim>\<open>RunE\<close> returns it and the
  process exits with status 1, as it does for a timeout of 0.
\<close>

theorem output_open_error_is_returned:
  "filter is_export (events (RunE readonly_world to_file [''example.com'']))
     = [SaveTable ''pretty'' Stdout]
   \<and> outcome (RunE readonly_world to_file [''example.com''])
       = Return (Some ''permission denied'')
   \<and> Execute readonly_world [Flag_output ''out.txt''] [''example.com''] = 1
   \<and> Execute calm_world [Flag_timeout 0] [''example.com''] = 1
   \<and> outcome (RunE readonly_world log_to_file [''example.com'']) = Return None
   \<and> Execute readonly_world [Flag_log ''udpz.log''] [''example.com''] = 0"
proof -
  have 1: "rootCmd_Execute readonly_world [Flag_output ''out.txt''] [''example.com'']
             = Ran (RunE readonly_world to_file [''example.com''])"
    by (simp add: rootCmd_Execute_def to_file_def MinimumNArgs_def completion_request_def
          helpVal_def versionVal_def)
  have 2: "rootCmd_Execute readonly_world [Flag_log ''udpz.log''] [''example.com'']
             = Ran (RunE readonly_world log_to_file [''example.com''])"
    by (simp add: rootCmd_Execute_def log_to_file_def MinimumNArgs_def completion_request_def
          helpVal_def versionVal_def)
  have 3: "rootCmd_Execute calm_world [Flag_timeout 0] [''example.com'']
             = Ran (RunE calm_world (initial_globals \<lparr> timeoutMs := 0 \<rparr>) [''example.com''])"
    by (simp add: rootCmd_Execute_def MinimumNArgs_def completion_request_def
          helpVal_def versionVal_def)
  have 4: "RunE calm_world (initial_globals \<lparr> timeoutMs := 0 \<rparr>) [''example.com'']
             = \<lparr> events = [], outcome = Return (Some ''timeout value must be > 0'') \<rparr>"
    by (rule RunE_check_fails) (simp add: ToLower_auto config_defs)
  show ?thesis
    by (simp add: Execute_def 1 2 3 4 RunE_to_file RunE_log_to_file)
qed

section \<open>Properties of the scanning engine\<close>

subsection \<open>Retransmissions\<close>

lemma run_probe_terminal: "terminal (state p) \<Longrightarrow> run_probe r env p = p"
  by (subst run_probe.simps) simp

lemma run_probe_step:
  "\<not> terminal (state p) \<Longrightarrow>
   run_probe r env p = run_probe r env (on_signal r (env (attempts p)) p)"
  by (subst run_probe.simps) simp

lemma run_probe_silence:
  assumes env: "\<forall>k. env k = Timeout"
  shows "\<not> terminal (state p) \<Longrightarrow> attempts p \<le> r + 1 \<Longrightarrow> sent p = attempts p \<Longrightarrow>
         run_probe r env p = \<lparr> state = OpenOrFiltered, attempts = r + 1, sent = r + 1 \<rparr>"
proof (induction n \<equiv> "r + 1 - attempts p" arbitrary: p)
  case 0
  then have a: "attempts p = r + 1" by simp
  have s: "on_signal r (env (attempts p)) p = p \<lparr> state := OpenOrFiltered \<rparr>"
    using env a by simp
  have "run_probe r env p = run_probe r env (p \<lparr> state := OpenOrFiltered \<rparr>)"
    using run_probe_step[OF 0(2), of r env] s by simp
  also have "\<dots> = p \<lparr> state := OpenOrFiltered \<rparr>"
    by (rule run_probe_terminal) (simp add: terminal_def)
  also have "\<dots> = \<lparr> state = OpenOrFiltered, attempts = r + 1, sent = r + 1 \<rparr>"
    using a 0(4) by (cases p) simp
  finally show ?case .
next
  case (Suc n)
  then have lt: "attempts p < r + 1" by simp
  let ?p = "p \<lparr> state := Retrying, attempts := attempts p + 1, sent := sent p + 1 \<rparr>"
  have s: "on_signal r (env (attempts p)) p = ?p"
    using env lt by simp
  have "run_probe r env p = run_probe r env ?p"
    using run_probe_step[OF Suc.prems(1), of r env] s by simp
  also have "\<dots> = \<lparr> state = OpenOrFiltered, attempts = r + 1, sent = r + 1 \<rparr>"
  proof (rule Suc.hyps(1))
    show "n = r + 1 - attempts ?p" using Suc.hyps(2) by simp
    show "\<not> terminal (state ?p)" by (simp add: terminal_def)
    show "attempts ?p \<le> r + 1" using lt by simp
    show "sent ?p = attempts ?p" using Suc.prems by simp
  qed
  finally show ?case .
qed


lemma on_signal_not_timeout:
  "sig \<noteq> Timeout \<Longrightarrow>
   terminal (state (on_signal r sig p)) \<and> sent (on_signal r sig p) = sent p"
  by (cases sig) (simp_all add: terminal_def)

lemma on_signal_last_timeout:
  "attempts p = r + 1 \<Longrightarrow>
   terminal (state (on_signal r sig p)) \<and> sent (on_signal r sig p) = sent p"
  by (cases sig) (simp_all add: terminal_def)

lemma run_probe_bounds:
  "\<not> terminal (state p) \<Longrightarrow> attempts p \<le> r + 1 \<Longrightarrow> sent p = attempts p \<Longrightarrow>
   terminal (state (run_probe r env p)) \<and> sent p \<le> sent (run_probe r env p)
   \<and> sent (run_probe r env p) \<le> r + 1"
proof (induction n \<equiv> "r + 1 - attempts p" arbitrary: p)
  case 0
  then have a: "attempts p = r + 1" by simp
  let ?q = "on_signal r (env (attempts p)) p"
  have q: "terminal (state ?q)" "sent ?q = sent p"
    using on_signal_last_timeout[OF a] by simp_all
  have "run_probe r env p = run_probe r env ?q"
    by (rule run_probe_step) (rule 0(2))
  also have "\<dots> = ?q" using q(1) by (rule run_probe_terminal)
  finally have "run_probe r env p = ?q" .
  with q a 0(4) show ?case by simp
next
  case (Suc n)
  then have lt: "attempts p < r + 1" by simp
  let ?q = "on_signal r (env (attempts p)) p"
  have st: "run_probe r env p = run_probe r env ?q"
    by (rule run_probe_step) (rule Suc.prems(1))
  show ?case
  proof (cases "env (attempts p) = Timeout")
    case True
    let ?p = "p \<lparr> state := Retrying, attempts := attempts p + 1, sent := sent p + 1 \<rparr>"
    have s: "?q = ?p" using True lt by simp
    have "terminal (state (run_probe r env ?p)) \<and> sent ?p \<le> sent (run_probe r env ?p)
          \<and> sent (run_probe r env ?p) \<le> r + 1"
    proof (rule Suc.hyps(1))
      show "n = r + 1 - attempts ?p" using Suc.hyps(2) by simp
      show "\<not> terminal (state ?p)" by (simp add: terminal_def)
      show "attempts ?p \<le> r + 1" using lt by simp
      show "sent ?p = attempts ?p" using Suc.prems by simp
    qed
    then show ?thesis unfolding st s by simp
  next
    case False
    have q: "terminal (state ?q)" "sent ?q = sent p"
      using on_signal_not_timeout[OF False] by simp_all
    have "run_probe r env ?q = ?q" using q(1) by (rule run_probe_terminal)
    with st have "run_probe r env p = ?q" by simp
    with q lt Suc.prems show ?thesis by simp
  qed
qed

text \<open>
  Claim C2, on the state machine of the specification. A probe whose every wait ends by
  the timer, with no reply, no rejection and no socket failure, makes exactly
  \<open>r + 1\<close> sends for \<open>r\<close> configured retransmissions, its attempts counter ends at
  \<open>r + 1\<close>, and its terminal state is OpenOrFiltered. Whatever ends the waits, the
  probe reaches a terminal state after at least one and at most \<open>r + 1\<close> sends. The
  retransmissions the scanner is constructed with are those of the flag.
\<close>

theorem silent_port_gets_all_attempts:
  "((\<forall>k. env k = Timeout) \<longrightarrow>
      sent (probe_port r env) = r + 1 \<and> attempts (probe_port r env) = r + 1
      \<and> state (probe_port r env) = OpenOrFiltered)
   \<and> terminal (state (probe_port r env')) \<and> 1 \<le> sent (probe_port r env')
   \<and> sent (probe_port r env') \<le> r + 1
   \<and> (NewUdpProbeScanner a \<in> set (events (RunE w g ts)) \<longrightarrow>
        arg_retransmissions a = retransmissions g)"
proof -
  have start: "\<not> terminal (state (first_send pending_probe))"
    "attempts (first_send pending_probe) \<le> r + 1"
    "sent (first_send pending_probe) = attempts (first_send pending_probe)"
    by (simp_all add: first_send_def pending_probe_def terminal_def)
  have one: "sent (first_send pending_probe) = 1"
    by (simp add: first_send_def pending_probe_def)
  have 1: "(\<forall>k. env k = Timeout) \<longrightarrow>
      sent (probe_port r env) = r + 1 \<and> attempts (probe_port r env) = r + 1
      \<and> state (probe_port r env) = OpenOrFiltered"
  proof
    assume "\<forall>k. env k = Timeout"
    from run_probe_silence[OF this start]
    have "probe_port r env = \<lparr> state = OpenOrFiltered, attempts = r + 1, sent = r + 1 \<rparr>"
      by (simp add: probe_port_def)
    then show "sent (probe_port r env) = r + 1 \<and> attempts (probe_port r env) = r + 1
      \<and> state (probe_port r env) = OpenOrFiltered"
      by simp
  qed
  have 2: "terminal (state (probe_port r env')) \<and> 1 \<le> sent (probe_port r env')
      \<and> sent (probe_port r env') \<le> r + 1"
    using run_probe_bounds[OF start, of env'] one by (simp add: probe_port_def)
  have 3: "NewUdpProbeScanner a \<in> set (events (RunE w g ts)) \<longrightarrow>
        arg_retransmissions a = retransmissions g"
  proof
    assume "NewUdpProbeScanner a \<in> set (events (RunE w g ts))"
    from RunE_constructs[OF this]
    show "arg_retransmissions a = retransmissions g"
      by (simp add: scanner_args_of_def)
  qed
  from 1 2 3 show ?thesis by (intro conjI) simp_all
qed

theorem silent_port_gets_all_attempts_witness:
  "sent (probe_port 2 silence) = 3 \<and> attempts (probe_port 2 silence) = 3
   \<and> state (probe_port 2 silence) = OpenOrFiltered
   \<and> arg_retransmissions (scanner_args_of (stderr_logger initial_globals) initial_globals) = 2"
proof -
  have 1: "NewUdpProbeScanner (scanner_args_of (stderr_logger initial_globals) initial_globals)
      \<in> set (events (RunE calm_world json_to_file [''example.com'']))"
    by (simp add: RunE_json_to_file)
  have 2: "\<forall>k. silence k = Timeout" by (simp add: silence_def)
  have 3: "retransmissions json_to_file = 2" by (simp add: json_to_file_def initial_globals_def)
  show ?thesis
    using silent_port_gets_all_attempts[of silence 2 silence
               "scanner_args_of (stderr_logger initial_globals) initial_globals"
               calm_world json_to_file "[''example.com'']"] 1 2 3
    by simp
qed

subsection \<open>Resolution\<close>

lemma resolve_targets_lists:
  "hosts (resolve_targets scanAll literal lookup ts s) =
     hosts s @ map (\<lambda>t. \<lparr> hostname = t,
                            addresses = (case resolve scanAll literal lookup t of
                                           Inr as \<Rightarrow> as | Inl e \<Rightarrow> []) \<rparr>)
                  (filter (\<lambda>t. literal t \<or> lookup t \<noteq> None) ts)
   \<and> resolution_errors (resolve_targets scanAll literal lookup ts s) =
     resolution_errors s @ filter (\<lambda>t. \<not> (literal t \<or> lookup t \<noteq> None)) ts"
proof (induction ts arbitrary: s)
  case Nil
  show ?case by simp
next
  case (Cons t ts)
  show ?case
  proof (cases "literal t \<or> lookup t \<noteq> None")
    case True
    then have "\<exists>as. resolve scanAll literal lookup t = Inr as"
      by (cases "lookup t") (auto simp: resolve_def)
    then obtain as where r: "resolve scanAll literal lookup t = Inr as" ..
    with True Cons.IH[of "s \<lparr> hosts := hosts s @ [\<lparr> hostname = t, addresses = as \<rparr>] \<rparr>"]
    show ?thesis by simp
  next
    case False
    then have r: "resolve scanAll literal lookup t = Inl t"
      by (cases "lookup t") (auto simp: resolve_def)
    with False Cons.IH[of "s \<lparr> resolution_errors := resolution_errors s @ [t] \<rparr>"]
    show ?thesis by simp
  qed
qed

text \<open>
  Claim C3, on the resolver of the specification. For every batch of targets, the
  resolved hosts are, in order, the resolvable targets of the batch, one host each, and
  the recorded errors are, in order, its unresolvable targets, one error each: a
  failure takes nothing away from the targets before or after it, and every target
  ends as either one host or one error.
\<close>

theorem one_host_or_one_error_per_target:
  "map hostname (hosts (resolve_targets scanAll literal lookup ts no_resolution))
     = filter (\<lambda>t. literal t \<or> lookup t \<noteq> None) ts
   \<and> resolution_errors (resolve_targets scanAll literal lookup ts no_resolution)
     = filter (\<lambda>t. \<not> (literal t \<or> lookup t \<noteq> None)) ts
   \<and> length (hosts (resolve_targets scanAll literal lookup ts no_resolution))
      + length (resolution_errors (resolve_targets scanAll literal lookup ts no_resolution))
     = length ts"
proof -
  let ?s = "resolve_targets scanAll literal lookup ts no_resolution"
  note l = resolve_targets_lists[of scanAll literal lookup ts no_resolution]
  have h: "map hostname (hosts ?s) = filter (\<lambda>t. literal t \<or> lookup t \<noteq> None) ts"
    using l by (simp add: no_resolution_def comp_def)
  have e: "resolution_errors ?s = filter (\<lambda>t. \<not> (literal t \<or> lookup t \<noteq> None)) ts"
    using l by (simp add: no_resolution_def)
  have "length (hosts ?s) = length (filter (\<lambda>t. literal t \<or> lookup t \<noteq> None) ts)"
    using h by (metis length_map)
  then have n: "length (hosts ?s) + length (resolution_errors ?s) = length ts"
    using e sum_length_filter_compl[of "\<lambda>t. literal t \<or> lookup t \<noteq> None" ts] by simp
  from h e n show ?thesis by (intro conjI)
qed

theorem one_host_or_one_error_per_target_witness:
  "map hostname (hosts (resolve_targets False sample_literal sample_lookup
       [''a.example'', ''nowhere.invalid'', ''192.0.2.7'', ''b.example''] no_resolution))
     = [''a.example'', ''192.0.2.7'', ''b.example'']
   \<and> resolution_errors (resolve_targets False sample_literal sample_lookup
       [''a.example'', ''nowhere.invalid'', ''192.0.2.7'', ''b.example''] no_resolution)
     = [''nowhere.invalid'']"
  using one_host_or_one_error_per_target[of False sample_literal sample_lookup
              "[''a.example'', ''nowhere.invalid'', ''192.0.2.7'', ''b.example'']"]
  by (simp add: sample_literal_def sample_lookup_def)

subsection \<open>The snapshot\<close>










end
